theory Spec2Isabelle
  imports Complex_Main
begin

section \<open>Data model\<close>

text \<open>
  The notebooks work on NumPy arrays of IEEE doubles. An array is modelled as a
  \<^typ>\<open>real list\<close>: the arithmetic is the exact arithmetic of the reals, so rounding,
  overflow and the non-finite values of IEEE arithmetic are outside this model.
  Python exceptions are values of the type \<open>error\<close>; a cell that can raise returns
  \<open>error + real list\<close>, with \<open>Inl\<close> the exception.
\<close>

datatype error = IndexError | ZeroDivisionError | ValueError

text \<open>
  \<^verbatim>\<open>np.zeros(n)\<close> and \<^verbatim>\<open>np.zeros_like(x)\<close>: an array of \<open>n\<close> zeros. In the cells
  \<^verbatim>\<open>a = np.zeros_like(head[0])\<close> the column \<^verbatim>\<open>head[0]\<close> has \<^verbatim>\<open>len(head)\<close> entries, which is
  also the length of \<^verbatim>\<open>noise\<close>.
\<close>

definition np_zeros :: "nat \<Rightarrow> real list" where
  "np_zeros n = replicate n 0"

section \<open>Noise generator\<close>

subsection \<open>AR(1) cell of noisemodel.ipynb (array \<open>a\<close>)\<close>

text \<open>
  \<^verbatim>\<open>a = np.zeros_like(head[0])\<close>
  \<^verbatim>\<open>for i in range(1, noise.size):\<close>
  \<^verbatim>\<open>    a[i] = noise[i] + a[i - 1] * alpha\<close>
\<close>

definition ar1_a_body :: "real list \<Rightarrow> real \<Rightarrow> nat \<Rightarrow> real list \<Rightarrow> real list" where
  "ar1_a_body noise alpha i a = a[i := noise ! i + a ! (i - 1) * alpha]"

definition ar1_a :: "real list \<Rightarrow> real \<Rightarrow> real list" where
  "ar1_a noise alpha =
     fold (ar1_a_body noise alpha) [1..<length noise] (np_zeros (length noise))"

subsection \<open>ARMA(1,1) cell (array \<open>a\<close>)\<close>

text \<open>
  \<^verbatim>\<open>a = np.zeros_like(head[0])\<close>
  \<^verbatim>\<open>for i in range(1, noise.size):\<close>
  \<^verbatim>\<open>    a[i] = noise[i] + noise[i - 1] * beta + a[i - 1] * alpha\<close>
\<close>

definition arma_a_body :: "real list \<Rightarrow> real \<Rightarrow> real \<Rightarrow> nat \<Rightarrow> real list \<Rightarrow> real list" where
  "arma_a_body noise alpha beta i a =
     a[i := noise ! i + noise ! (i - 1) * beta + a ! (i - 1) * alpha]"

definition arma_a :: "real list \<Rightarrow> real \<Rightarrow> real \<Rightarrow> real list" where
  "arma_a noise alpha beta =
     fold (arma_a_body noise alpha beta) [1..<length noise] (np_zeros (length noise))"

subsection \<open>Correlated-noise cell of \<^verbatim>\<open>pastas_synthetic.ipynb\<close> (array \<open>noise_corr\<close>)\<close>

text \<open>
  \<^verbatim>\<open>noise_corr = np.zeros(len(noise))\<close>
  \<^verbatim>\<open>noise_corr[0] = noise[0]\<close>
  \<^verbatim>\<open>for i in range(1, len(noise_corr)):\<close>
  \<^verbatim>\<open>    noise_corr[i] = np.exp(-1 / alphatrue) * noise_corr[i - 1] + noise[i]\<close>

  \<^verbatim>\<open>noise[0]\<close> raises IndexError on an empty array. \<^verbatim>\<open>alphatrue\<close> is a Python number, so
  \<^verbatim>\<open>-1 / alphatrue\<close> raises ZeroDivisionError when it is zero; this happens in the first
  pass through the loop body.
\<close>

definition noise_corr_body ::
  "real list \<Rightarrow> real \<Rightarrow> nat \<Rightarrow> error + real list \<Rightarrow> error + real list" where
  "noise_corr_body noise alphatrue i st =
     (case st of
        Inl e \<Rightarrow> Inl e
      | Inr r \<Rightarrow>
          if alphatrue = 0 then Inl ZeroDivisionError
          else Inr (r[i := exp (- 1 / alphatrue) * r ! (i - 1) + noise ! i]))"

definition noise_corr :: "real list \<Rightarrow> real \<Rightarrow> error + real list" where
  "noise_corr noise alphatrue =
     (if noise = [] then Inl IndexError
      else fold (noise_corr_body noise alphatrue) [1..<length noise]
             (Inr ((np_zeros (length noise))[0 := noise ! 0])))"

subsection \<open>Irregular-step AR(1) cell of noisemodel.ipynb (array \<open>residuals\<close>)\<close>

text \<open>
  \<^verbatim>\<open>np.exp(-delt[i - 1] / alpha)\<close>: \<^verbatim>\<open>delt[i - 1]\<close> is a NumPy double, so the division follows
  IEEE rules and raises nothing. For \<^verbatim>\<open>alpha = 0\<close> and a positive step the quotient is
  \<open>-inf\<close> and its exponential is \<open>0\<close>. For \<^verbatim>\<open>alpha = 0\<close> and a step that is not positive
  the result is not finite and has no counterpart in this model; the steps of a strictly
  increasing time index are positive.
\<close>

definition decay :: "real \<Rightarrow> real \<Rightarrow> real" where
  "decay dt alpha = (if alpha = 0 then 0 else exp (- dt / alpha))"

text \<open>
  \<^verbatim>\<open>noise = sigma_n * np.random.randn(len(ho))\<close>
  \<^verbatim>\<open>residuals = np.zeros_like(noise)\<close>
  \<^verbatim>\<open>residuals[0] = noise[0]\<close>
  \<^verbatim>\<open>for i in range(1, len(ho)):\<close>
  \<^verbatim>\<open>    residuals[i] = np.exp(-delt[i - 1] / alpha) * residuals[i - 1] + noise[i]\<close>

  \<^verbatim>\<open>len(ho)\<close> is the length of \<^verbatim>\<open>noise\<close>. Reading \<^verbatim>\<open>delt[i - 1]\<close> past the end of \<^verbatim>\<open>delt\<close>
  raises IndexError.
\<close>

definition residuals_body ::
  "real list \<Rightarrow> real list \<Rightarrow> real \<Rightarrow> nat \<Rightarrow> error + real list \<Rightarrow> error + real list" where
  "residuals_body noise delt alpha i st =
     (case st of
        Inl e \<Rightarrow> Inl e
      | Inr r \<Rightarrow>
          if i - 1 < length delt
          then Inr (r[i := decay (delt ! (i - 1)) alpha * r ! (i - 1) + noise ! i])
          else Inl IndexError)"

definition residuals :: "real list \<Rightarrow> real list \<Rightarrow> real \<Rightarrow> error + real list" where
  "residuals noise delt alpha =
     (if noise = [] then Inl IndexError
      else fold (residuals_body noise delt alpha) [1..<length noise]
             (Inr ((np_zeros (length noise))[0 := noise ! 0])))"

subsection \<open>The AR(1) recursion in the words of the specification\<close>

text \<open>
  \<open>r[0] = noise[0]\<close>; \<open>r[i] = noise[i] + \<alpha> \<cdot> r[i-1]\<close> for \<open>i \<ge> 1\<close>. This definition
  follows the specification, not a cell; the cells are compared with it.
\<close>

fun ar1_spec_from :: "real \<Rightarrow> real \<Rightarrow> real list \<Rightarrow> real list" where
  "ar1_spec_from prev alpha [] = []"
| "ar1_spec_from prev alpha (x # xs) =
     (x + alpha * prev) # ar1_spec_from (x + alpha * prev) alpha xs"

fun ar1_spec :: "real list \<Rightarrow> real \<Rightarrow> real list" where
  "ar1_spec [] alpha = []"
| "ar1_spec (x # xs) alpha = x # ar1_spec_from x alpha xs"

section \<open>Response integrator\<close>

text \<open>
  \<^verbatim>\<open>scipy.integrate.quad(f, a, b, args=p)\<close> returns the pair (value, error estimate); the
  cells take component \<^verbatim>\<open>[0]\<close>. The routine belongs to an external library and is a
  parameter here, as are the impulse response of the family and the parameter vector.
  The upper limit is a sample time or \<^verbatim>\<open>np.inf\<close>.
\<close>

datatype bound = Fin real | PosInf

type_synonym 'p quad = "(real \<Rightarrow> 'p \<Rightarrow> real) \<Rightarrow> real \<Rightarrow> bound \<Rightarrow> 'p \<Rightarrow> real \<times> real"

text \<open>
  \<^verbatim>\<open>t = np.arange(0, tmax)\<close>: the values \<open>0, 1, \<dots>\<close> below \<open>tmax\<close>, that is
  \<open>\<lceil>tmax\<rceil>\<close> of them, none when \<open>tmax \<le> 0\<close>.
\<close>

definition arange :: "real \<Rightarrow> real list" where
  "arange tmax = map real [0..<nat \<lceil>tmax\<rceil>]"

text \<open>
  \<^verbatim>\<open>stepnum = np.zeros(len(t))\<close>
  \<^verbatim>\<open>for i in range(1, len(t)):\<close>
  \<^verbatim>\<open>    stepnum[i] = quad(gamma.impulse, 0, t[i], args=(p))[0]\<close>

  The same cell is repeated for Gamma, Exponential, Hantush, Polder, DoubleExponential
  and Kraijenhoff, with the impulse response of the family.
\<close>

definition stepnum_body ::
  "'p quad \<Rightarrow> (real \<Rightarrow> 'p \<Rightarrow> real) \<Rightarrow> 'p \<Rightarrow> real list \<Rightarrow> nat \<Rightarrow> real list \<Rightarrow> real list" where
  "stepnum_body quad impulse p t i s = s[i := fst (quad impulse 0 (Fin (t ! i)) p)]"

definition stepnum :: "'p quad \<Rightarrow> (real \<Rightarrow> 'p \<Rightarrow> real) \<Rightarrow> 'p \<Rightarrow> real list \<Rightarrow> real list" where
  "stepnum quad impulse p t =
     fold (stepnum_body quad impulse p t) [1..<length t] (np_zeros (length t))"

text \<open>
  FourParam cell, after the same loop:
  \<^verbatim>\<open>stepnum = stepnum / quad(fourparam.impulse, 0, np.inf, args=p)[0]\<close>

  Dividing an array by zero raises nothing in NumPy and gives entries that are not
  finite; they have no counterpart in this model, which returns \<open>None\<close> there.
\<close>

definition np_divide :: "real list \<Rightarrow> real \<Rightarrow> real list option" where
  "np_divide s d = (if d = 0 then None else Some (map (\<lambda>x. x / d) s))"

definition fourparam_stepnum ::
  "'p quad \<Rightarrow> (real \<Rightarrow> 'p \<Rightarrow> real) \<Rightarrow> 'p \<Rightarrow> real list \<Rightarrow> real list option" where
  "fourparam_stepnum quad impulse p t =
     np_divide (stepnum quad impulse p t) (fst (quad impulse 0 PosInf p))"



section \<open>Loops that fill an array from index 1\<close>

lemma fold_update_length:
  "length (fold (\<lambda>i a. a[i := F i a]) js a0) = length a0"
  by (induction js arbitrary: a0) simp_all

lemma fold_update_nth_other:
  "j \<notin> set js \<Longrightarrow> fold (\<lambda>i a. a[i := F i a]) js a0 ! j = a0 ! j"
  by (induction js arbitrary: a0) auto


text \<open>
  A loop \<^verbatim>\<open>for i in range(1, k): a[i] = g(i, a[i - 1])\<close> leaves behind an array that
  satisfies the recurrence at every index it has visited.
\<close>

lemma fold_recurrence_nth:
  assumes "k \<le> length a0" and "1 \<le> i" and "i < k"
  shows "fold (\<lambda>i a. a[i := g i (a ! (i - 1))]) [1..<k] a0 ! i
         = g i (fold (\<lambda>i a. a[i := g i (a ! (i - 1))]) [1..<k] a0 ! (i - 1))"
  using assms
proof (induction k)
  case 0
  then show ?case by simp
next
  case (Suc k)
  let ?f = "\<lambda>i a. a[i := g i (a ! (i - 1))]"
  let ?r = "fold ?f [1..<k] a0"
  have k1: "1 \<le> k" using Suc.prems by simp
  have len: "length ?r = length a0" by (rule fold_update_length)
  have unroll: "fold ?f [1..<Suc k] a0 = ?r[k := g k (?r ! (k - 1))]"
    using k1 by simp
  show ?case
  proof (cases "i = k")
    case True
    have "k < length ?r" using Suc.prems len by simp
    then show ?thesis using True k1 unroll by simp
  next
    case False
    then have ik: "i < k" using Suc.prems by simp
    have "?r ! i = g i (?r ! (i - 1))"
      using Suc.IH ik Suc.prems by simp
    then show ?thesis using unroll False ik by simp
  qed
qed

lemma fold_cong_on:
  "(\<And>i a. i \<in> set js \<Longrightarrow> f i a = g i a) \<Longrightarrow> fold f js a0 = fold g js a0"
  by (induction js arbitrary: a0) simp_all

section \<open>What the noise cells compute\<close>

lemma ar1_a_length: "length (ar1_a noise alpha) = length noise"
  unfolding ar1_a_def ar1_a_body_def by (simp add: fold_update_length np_zeros_def)

text \<open>The first entry of \<open>a\<close> stays at its initial zero: the loop starts at index 1.\<close>

lemma ar1_a_first: "noise \<noteq> [] \<Longrightarrow> ar1_a noise alpha ! 0 = 0"
  unfolding ar1_a_def ar1_a_body_def by (simp add: fold_update_nth_other np_zeros_def)

lemma ar1_a_recurrence:
  assumes "1 \<le> i" and "i < length noise"
  shows "ar1_a noise alpha ! i = noise ! i + ar1_a noise alpha ! (i - 1) * alpha"
  unfolding ar1_a_def ar1_a_body_def
  using fold_recurrence_nth [where g = "\<lambda>i x. noise ! i + x * alpha" and k = "length noise"
      and ?a0.0 = "np_zeros (length noise)" and i = i] assms
  by (simp add: np_zeros_def)

lemma arma_a_length: "length (arma_a noise alpha beta) = length noise"
  unfolding arma_a_def arma_a_body_def by (simp add: fold_update_length np_zeros_def)

lemma arma_a_body_beta_zero: "arma_a_body noise alpha 0 = ar1_a_body noise alpha"
  by (intro ext) (simp add: arma_a_body_def ar1_a_body_def)

text \<open>With \<open>\<beta> = 0\<close> the ARMA(1,1) cell is the AR(1) cell of noisemodel.ipynb.\<close>

lemma arma_a_beta_zero: "arma_a noise alpha 0 = ar1_a noise alpha"
  by (simp add: arma_a_def ar1_a_def arma_a_body_beta_zero)

lemma residuals_fold_ok:
  "\<forall>i \<in> set js. i - 1 < length delt \<Longrightarrow>
   fold (residuals_body noise delt alpha) js (Inr r0) =
   Inr (fold (\<lambda>i r. r[i := decay (delt ! (i - 1)) alpha * r ! (i - 1) + noise ! i]) js r0)"
  by (induction js arbitrary: r0) (simp_all add: residuals_body_def)

lemma residuals_ok:
  assumes "noise \<noteq> []" and "length noise - 1 \<le> length delt"
  shows "residuals noise delt alpha =
         Inr (fold (\<lambda>i r. r[i := decay (delt ! (i - 1)) alpha * r ! (i - 1) + noise ! i])
                [1..<length noise] ((np_zeros (length noise))[0 := noise ! 0]))"
proof -
  have "\<forall>i \<in> set [1..<length noise]. i - 1 < length delt"
    using assms(2) by auto
  then show ?thesis
    using assms(1) by (simp add: residuals_def residuals_fold_ok)
qed

lemma noise_corr_fold_ok:
  "alphatrue \<noteq> 0 \<Longrightarrow>
   fold (noise_corr_body noise alphatrue) js (Inr r0) =
   Inr (fold (\<lambda>i r. r[i := exp (- 1 / alphatrue) * r ! (i - 1) + noise ! i]) js r0)"
  by (induction js arbitrary: r0) (simp_all add: noise_corr_body_def)

lemma noise_corr_ok:
  assumes "noise \<noteq> []" and "alphatrue \<noteq> 0"
  shows "noise_corr noise alphatrue =
         Inr (fold (\<lambda>i r. r[i := exp (- 1 / alphatrue) * r ! (i - 1) + noise ! i])
                [1..<length noise] ((np_zeros (length noise))[0 := noise ! 0]))"
  using assms by (simp add: noise_corr_def noise_corr_fold_ok)

text \<open>
  The two cells that seed the first entry with \<open>noise[0]\<close> agree on unit time steps:
  the irregular-step cell with \<open>\<Delta>t = 1\<close> everywhere is the cell of
  \<^verbatim>\<open>pastas_synthetic.ipynb\<close>.
\<close>

lemma residuals_unit_steps:
  assumes "noise \<noteq> []" and "alpha \<noteq> 0"
  shows "residuals noise (replicate (length noise - 1) 1) alpha = noise_corr noise alpha"
proof -
  let ?delt = "replicate (length noise - 1) (1::real)"
  have same: "decay (?delt ! (i - 1)) alpha = exp (- 1 / alpha)"
    if "i \<in> set [1..<length noise]" for i
    using that assms(2) by (auto simp: decay_def)
  have "fold (\<lambda>i r. r[i := decay (?delt ! (i - 1)) alpha * r ! (i - 1) + noise ! i])
          [1..<length noise] r0
        = fold (\<lambda>i r. r[i := exp (- 1 / alpha) * r ! (i - 1) + noise ! i])
          [1..<length noise] r0" for r0
    by (rule fold_cong_on) (simp only: same)
  then show ?thesis
    using assms by (simp add: residuals_ok noise_corr_ok)
qed

text \<open>
  The recursion of the specification, read by index.
\<close>

lemma ar1_spec_from_length: "length (ar1_spec_from prev c xs) = length xs"
  by (induction xs arbitrary: prev) simp_all

lemma ar1_spec_length: "length (ar1_spec xs c) = length xs"
  by (cases xs) (simp_all add: ar1_spec_from_length)

lemma ar1_spec_from_first: "xs \<noteq> [] \<Longrightarrow> ar1_spec_from prev c xs ! 0 = xs ! 0 + c * prev"
  by (cases xs) simp_all

lemma ar1_spec_from_Suc:
  "Suc i < length xs \<Longrightarrow>
   ar1_spec_from prev c xs ! Suc i = xs ! Suc i + c * ar1_spec_from prev c xs ! i"
proof (induction xs arbitrary: prev i)
  case Nil
  then show ?case by simp
next
  case (Cons x xs)
  show ?case
  proof (cases i)
    case 0
    then show ?thesis using Cons.prems by (simp add: ar1_spec_from_first)
  next
    case (Suc j)
    then show ?thesis using Cons.prems Cons.IH [of j "x + c * prev"] by simp
  qed
qed

lemma ar1_spec_first: "xs \<noteq> [] \<Longrightarrow> ar1_spec xs c ! 0 = xs ! 0"
  by (cases xs) simp_all

lemma ar1_spec_Suc:
  "Suc i < length xs \<Longrightarrow> ar1_spec xs c ! Suc i = xs ! Suc i + c * ar1_spec xs c ! i"
proof (cases xs)
  case Nil
  then show "Suc i < length xs \<Longrightarrow> ?thesis" by simp
next
  case (Cons x ys)
  assume "Suc i < length xs"
  then show ?thesis using Cons
    by (cases i) (simp_all add: ar1_spec_from_first ar1_spec_from_Suc)
qed

text \<open>
  A loop that first stores \<open>noise[0]\<close> and then runs the recurrence with a fixed
  coefficient computes the recursion of the specification.
\<close>

lemma seeded_fold_is_ar1_spec:
  assumes "noise \<noteq> []"
  shows "fold (\<lambda>i r. r[i := c * r ! (i - 1) + noise ! i]) [1..<length noise]
           ((np_zeros (length noise))[0 := noise ! 0])
         = ar1_spec noise c"
proof (rule nth_equalityI)
  let ?f = "\<lambda>i r. r[i := c * r ! (i - 1) + noise ! i]"
  let ?init = "(np_zeros (length noise))[0 := noise ! 0]"
  let ?res = "fold ?f [1..<length noise] ?init"
  have len0: "length ?init = length noise" by (simp add: np_zeros_def)
  show "length ?res = length (ar1_spec noise c)"
    by (simp add: fold_update_length ar1_spec_length np_zeros_def)
  fix i
  assume "i < length ?res"
  then have "i < length noise" by (simp add: fold_update_length np_zeros_def)
  then show "?res ! i = ar1_spec noise c ! i"
  proof (induction i)
    case 0
    have "?res ! 0 = ?init ! 0" by (rule fold_update_nth_other) simp
    then show ?case using assms by (simp add: ar1_spec_first np_zeros_def)
  next
    case (Suc j)
    have "length noise \<le> length ?init" using len0 by simp
    moreover have "1 \<le> Suc j" by simp
    ultimately have "?res ! Suc j = (\<lambda>i x. c * x + noise ! i) (Suc j) (?res ! (Suc j - 1))"
      using Suc.prems by (rule fold_recurrence_nth [where g = "\<lambda>i x. c * x + noise ! i"])
    then show ?case using Suc by (simp add: ar1_spec_Suc)
  qed
qed

text \<open>
  The cell \<open>noise_corr\<close> computes the recursion of the specification with the
  coefficient \<open>exp (-1/\<alpha>)\<close>, and so does the cell \<open>residuals\<close> on unit time steps.
\<close>

lemma noise_corr_is_ar1_spec:
  assumes "noise \<noteq> []" and "alphatrue \<noteq> 0"
  shows "noise_corr noise alphatrue = Inr (ar1_spec noise (exp (- 1 / alphatrue)))"
  by (simp only: noise_corr_ok [OF assms] seeded_fold_is_ar1_spec [OF assms(1)])

lemma residuals_unit_steps_is_ar1_spec:
  assumes "noise \<noteq> []" and "alpha \<noteq> 0"
  shows "residuals noise (replicate (length noise - 1) 1) alpha
         = Inr (ar1_spec noise (exp (- 1 / alpha)))"
  by (simp only: residuals_unit_steps [OF assms] noise_corr_is_ar1_spec [OF assms])

section \<open>What the response integrator computes\<close>



lemma arange_nonempty: "0 < tmax \<Longrightarrow> arange tmax \<noteq> []"
  by (simp add: arange_def)




lemma stepnum_length: "length (stepnum quad impulse p t) = length t"
  unfolding stepnum_def stepnum_body_def by (simp add: fold_update_length np_zeros_def)

lemma stepnum_first: "t \<noteq> [] \<Longrightarrow> stepnum quad impulse p t ! 0 = 0"
  unfolding stepnum_def stepnum_body_def by (simp add: fold_update_nth_other np_zeros_def)




section \<open>The claims about the noise generator\<close>

text \<open>
  Claim C1: the regular-step AR(1) generator returns \<open>r\<close> with \<open>r[0] = noise[0]\<close> and
  \<open>r[i] = noise[i] + \<alpha> \<cdot> r[i-1]\<close> for \<open>1 \<le> i < n\<close>. The AR(1) cell of noisemodel.ipynb
  obeys the recurrence (lemma \<open>ar1_a_recurrence\<close>) but never stores \<open>noise[0]\<close>: its first
  entry is the initial zero (lemma \<open>ar1_a_first\<close>), whereas the cells \<open>residuals\<close> and
  \<open>noise_corr\<close> assign \<open>noise[0]\<close> to it. On the noise \<open>[2, 3]\<close> with \<open>\<alpha> = 0.8\<close> the
  cell returns \<open>[0, 3]\<close>, the recursion of the specification \<open>[2, 4.6]\<close>.
\<close>

theorem ar1_a_drops_first_noise_value:
  "ar1_a [2, 3] (4 / 5) = [0, 3] \<and> ar1_spec [2, 3] (4 / 5) = [2, 23 / 5]"
  by (simp add: ar1_a_def ar1_a_body_def np_zeros_def)

text \<open>
  Claim C3: with every time step equal to 1, the \<open>\<Delta>t\<close>-based recursion and the
  fixed-coefficient recursion with coefficient \<open>exp (-1/\<alpha>)\<close> give the same output,
  the first element included. The \<open>\<Delta>t\<close>-based cell \<open>residuals\<close> starts from \<open>noise[0]\<close>,
  the fixed-coefficient cell \<open>a\<close> of the same notebook from zero, so on the noise
  \<open>[1, 0]\<close> with \<open>\<alpha> = 1\<close> the first returns \<open>[1, exp (-1)]\<close> and the second \<open>[0, 0]\<close>.
  (The seeded fixed-coefficient cell \<open>noise_corr\<close> and the recursion of the
  specification do agree with \<open>residuals\<close>: lemmas \<open>residuals_unit_steps\<close> and
  \<open>residuals_unit_steps_is_ar1_spec\<close>.)
\<close>

theorem residuals_differs_from_ar1_a:
  "residuals [1, 0] [1] 1 = Inr [1, exp (- 1)] \<and> ar1_a [1, 0] (exp (- 1 / 1)) = [0, 0]"
  by (simp add: residuals_def residuals_body_def decay_def ar1_a_def ar1_a_body_def np_zeros_def)

text \<open>
  Claim C4: the ARMA(1,1) generator with \<open>\<beta> = 0\<close> gives, element for element and from
  the first element on, the AR(1) recursion of the specification. The ARMA(1,1) cell
  also starts from zero instead of \<open>noise[0]\<close>: on the noise \<open>[1, 0]\<close> with
  \<open>\<alpha> = 0.5\<close> and \<open>\<beta> = 0\<close> it returns \<open>[0, 0]\<close>, the recursion of the specification
  \<open>[1, 0.5]\<close>. (With \<open>\<beta> = 0\<close> the cell equals the zero-seeded AR(1) cell: lemma
  \<open>arma_a_beta_zero\<close>.)
\<close>

theorem arma_a_beta_zero_differs_from_spec:
  "arma_a [1, 0] (1 / 2) 0 = [0, 0] \<and> ar1_spec [1, 0] (1 / 2) = [1, 1 / 2]"
  by (simp add: arma_a_def arma_a_body_def np_zeros_def)

text \<open>
  Claim C5: with \<open>\<alpha> = 0\<close> the AR(1) generator returns the base noise unchanged, index 0
  included. The AR(1) cell of noisemodel.ipynb returns the noise from index 1 on, but
  a zero at index 0: the noise \<open>[3, 5, 7]\<close> becomes \<open>[0, 5, 7]\<close>.
\<close>

theorem ar1_a_alpha_zero_changes_first:
  "ar1_a [3, 5, 7] 0 = [0, 5, 7]"
  by (simp add: ar1_a_def ar1_a_body_def np_zeros_def)

text \<open>
  Claim C6: for the base noise \<open>[1, 0, 0, 0]\<close> and \<open>\<alpha> = 0.5\<close> the regular-step AR(1)
  recursion returns \<open>[1, 0.5, 0.25, 0.125]\<close>. The AR(1) cell of noisemodel.ipynb never
  reads \<open>noise[0]\<close>, the only non-zero entry, and returns \<open>[0, 0, 0, 0]\<close>.
\<close>

theorem ar1_a_unit_impulse:
  "ar1_a [1, 0, 0, 0] (1 / 2) = [0, 0, 0, 0]"
  by (simp add: ar1_a_def ar1_a_body_def np_zeros_def)

text \<open>
  Claim C9: for every base noise sequence of length \<open>n\<close> and every parameter choice the
  noise generator returns exactly \<open>n\<close> values and raises nothing. As stated this fails
  on the empty sequence, where the cells that assign \<open>noise[0]\<close> raise IndexError, and
  for the cell \<open>noise_corr\<close> at decay parameter 0, where \<^verbatim>\<open>-1 / alphatrue\<close> raises
  ZeroDivisionError.
\<close>

theorem seeded_cells_raise:
  "residuals [] [] 50 = Inl IndexError \<and> noise_corr [] 2 = Inl IndexError
   \<and> noise_corr [1, 2] 0 = Inl ZeroDivisionError"
  by (simp add: residuals_def noise_corr_def noise_corr_body_def np_zeros_def)

text \<open>
  Claim C9, amended: for a non-empty base noise sequence of length \<open>n\<close> with its
  \<open>n - 1\<close> time steps, the \<open>\<Delta>t\<close>-based AR(1) cell returns exactly \<open>n\<close> values and raises
  nothing, for every \<open>\<alpha>\<close>; so does the cell \<open>noise_corr\<close> for every non-zero decay
  parameter; the AR(1) and ARMA(1,1) cells \<open>a\<close> return exactly \<open>n\<close> values for every
  \<open>n\<close>, the empty sequence included, and every parameter choice.
\<close>

theorem noise_generators_length:
  "(noise \<noteq> [] \<and> length delt = length noise - 1 \<longrightarrow>
      (\<exists>r. residuals noise delt alpha = Inr r \<and> length r = length noise))
   \<and> (noise \<noteq> [] \<and> alphatrue \<noteq> 0 \<longrightarrow>
      (\<exists>r. noise_corr noise alphatrue = Inr r \<and> length r = length noise))
   \<and> length (ar1_a noise alpha) = length noise
   \<and> length (arma_a noise alpha beta) = length noise"
proof (intro conjI impI)
  assume h: "noise \<noteq> [] \<and> length delt = length noise - 1"
  then have "length noise - 1 \<le> length delt" by simp
  with h show "\<exists>r. residuals noise delt alpha = Inr r \<and> length r = length noise"
    by (simp add: residuals_ok fold_update_length np_zeros_def)
next
  assume "noise \<noteq> [] \<and> alphatrue \<noteq> 0"
  then show "\<exists>r. noise_corr noise alphatrue = Inr r \<and> length r = length noise"
    by (simp add: noise_corr_ok fold_update_length np_zeros_def)
next
  show "length (ar1_a noise alpha) = length noise" by (rule ar1_a_length)
next
  show "length (arma_a noise alpha beta) = length noise" by (rule arma_a_length)
qed

text \<open>The amended claim C9 at the noise \<open>[1, 0]\<close> with one unit time step.\<close>

theorem noise_generators_length_witness:
  "([1, 0::real] \<noteq> [] \<and> length [1::real] = length [1, 0::real] - 1)
   \<and> (\<exists>r. residuals [1, 0] [1] 1 = Inr r \<and> length r = length [1, 0::real])
   \<and> ([1, 0::real] \<noteq> [] \<and> (2::real) \<noteq> 0)
   \<and> (\<exists>r. noise_corr [1, 0] 2 = Inr r \<and> length r = length [1, 0::real])"
  using noise_generators_length [of "[1, 0]" "[1]" 1 2 0] by simp

section \<open>The claims about the response integrator\<close>




text \<open>
  Claim C10: for every family and parameter vector whose time horizon is positive, the
  numerical step-response sequence is exactly 0 at index 0 (time 0): the array starts
  as zeros and the quadrature loop starts at index 1. The FourParam cell divides the
  array by the total mass afterwards, which leaves the zero in place whenever the
  quotient is defined.
\<close>

theorem stepnum_starts_at_zero:
  "0 < tmax \<longrightarrow>
     stepnum quad impulse p (arange tmax) ! 0 = 0
     \<and> (\<forall>s. fourparam_stepnum quad impulse p (arange tmax) = Some s \<longrightarrow> s ! 0 = 0)"
proof (intro impI conjI allI)
  assume "0 < tmax"
  then have ne: "arange tmax \<noteq> []" by (rule arange_nonempty)
  then show z: "stepnum quad impulse p (arange tmax) ! 0 = 0" by (rule stepnum_first)
  fix s
  assume "fourparam_stepnum quad impulse p (arange tmax) = Some s"
  then have "s = map (\<lambda>x. x / fst (quad impulse 0 PosInf p)) (stepnum quad impulse p (arange tmax))"
    by (auto simp: fourparam_stepnum_def np_divide_def split: if_splits)
  moreover have "0 < length (stepnum quad impulse p (arange tmax))"
    using ne by (simp add: stepnum_length)
  ultimately show "s ! 0 = 0" using z by simp
qed

text \<open>
  Claim C10 at \<open>tmax = 3\<close>, with a quadrature that returns 1 on a finite interval and 2
  on \<open>[0, \<infinity>)\<close>.
\<close>

theorem stepnum_starts_at_zero_witness:
  "(0::real) < 3
   \<and> stepnum (\<lambda>f a b p. (if b = PosInf then 2 else 1, 0)) (\<lambda>t p. 0) () (arange 3) ! 0 = 0
   \<and> fourparam_stepnum (\<lambda>f a b p. (if b = PosInf then 2 else 1, 0)) (\<lambda>t p. 0) () (arange 3)
       = Some [0, 1 / 2, 1 / 2]
   \<and> [0, 1 / 2, 1 / 2 :: real] ! 0 = 0"
  using stepnum_starts_at_zero [of 3 "\<lambda>f a b p. (if b = PosInf then 2 else 1, 0)" "\<lambda>t p. 0" "()"]
  by (simp add: fourparam_stepnum_def np_divide_def stepnum_def stepnum_body_def np_zeros_def
      arange_def upt_conv_Cons)

end
